theory Spec2Isabelle
  imports Complex_Main
begin

section \<open>JavaScript values\<close>

text \<open>
  The adapter inspects configuration values with \<^verbatim>\<open>typeof\<close>, truthiness, strict
  equality and property reads, so the values are modelled as the language has them.
  A finite number is an exact rational (binary rounding and overflow are not modelled);
  \<open>NaN\<close> and the two infinities are separate values, because \<open>NaN\<close> is falsy and unequal
  to itself. An object is a reference together with its own properties, in insertion
  order; a property may be present with the value \<^verbatim>\<open>undefined\<close>. Functions, symbols and
  BigInts do not occur.
\<close>

datatype jsnum = Fin rat | NaN | PInf | NInf

datatype jsval =
    JUndefined
  | JNull
  | JBool bool
  | JNum jsnum
  | JStr string
  | JObj nat "(string \<times> jsval) list"

datatype jstype = TUndefined | TObject | TBoolean | TNumber | TString

fun typeof :: "jsval \<Rightarrow> jstype" where
  "typeof JUndefined = TUndefined"
| "typeof JNull = TObject"
| "typeof (JBool b) = TBoolean"
| "typeof (JNum n) = TNumber"
| "typeof (JStr s) = TString"
| "typeof (JObj r kvs) = TObject"

text \<open>Truthiness: \<^verbatim>\<open>undefined\<close>, \<^verbatim>\<open>null\<close>, \<^verbatim>\<open>false\<close>, \<^verbatim>\<open>0\<close>, \<^verbatim>\<open>NaN\<close> and \<^verbatim>\<open>""\<close> are falsy.\<close>

fun num_truthy :: "jsnum \<Rightarrow> bool" where
  "num_truthy (Fin q) = (q \<noteq> 0)"
| "num_truthy NaN = False"
| "num_truthy PInf = True"
| "num_truthy NInf = True"

fun js_truthy :: "jsval \<Rightarrow> bool" where
  "js_truthy JUndefined = False"
| "js_truthy JNull = False"
| "js_truthy (JBool b) = b"
| "js_truthy (JNum n) = num_truthy n"
| "js_truthy (JStr s) = (s \<noteq> [])"
| "js_truthy (JObj r kvs) = True"

text \<open>\<^verbatim>\<open>a || b\<close>\<close>

definition js_or :: "jsval \<Rightarrow> jsval \<Rightarrow> jsval" where
  "js_or a b = (if js_truthy a then a else b)"

text \<open>Strict equality \<^verbatim>\<open>===\<close>: by value on primitives (\<open>NaN\<close> equals nothing), by
  reference on objects.\<close>

fun num_strict_eq :: "jsnum \<Rightarrow> jsnum \<Rightarrow> bool" where
  "num_strict_eq NaN y = False"
| "num_strict_eq x NaN = False"
| "num_strict_eq x y = (x = y)"

fun js_strict_eq :: "jsval \<Rightarrow> jsval \<Rightarrow> bool" where
  "js_strict_eq JUndefined JUndefined = True"
| "js_strict_eq JNull JNull = True"
| "js_strict_eq (JBool a) (JBool b) = (a = b)"
| "js_strict_eq (JNum a) (JNum b) = num_strict_eq a b"
| "js_strict_eq (JStr a) (JStr b) = (a = b)"
| "js_strict_eq (JObj r kvs) (JObj r' kvs') = (r = r')"
| "js_strict_eq x y = False"

text \<open>A property read \<^verbatim>\<open>v?.k\<close>: the own property of an object, \<^verbatim>\<open>undefined\<close> when it
  is missing or when \<open>v\<close> is nullish or a primitive (none of the property names read
  here exists on a primitive's prototype).\<close>

fun js_get :: "jsval \<Rightarrow> string \<Rightarrow> jsval" where
  "js_get (JObj r kvs) k = (case map_of kvs k of Some v \<Rightarrow> v | None \<Rightarrow> JUndefined)"
| "js_get v k = JUndefined"

text \<open>\<^verbatim>\<open>Object.prototype.hasOwnProperty.call(v, k)\<close>\<close>

fun has_own :: "jsval \<Rightarrow> string \<Rightarrow> bool" where
  "has_own (JObj r kvs) k = (k \<in> fst ` set kvs)"
| "has_own v k = False"

section \<open>Cache configuration\<close>

datatype error =
    InvalidCacheConfig
  | IndexedDBNotAvailable
  | EmptyCacheName
  | TypeError
  | StoreError string
  | HashError string
  | BodyError string
  | RegExpSyntaxError string

record ExtendedCacheMeta =
  ttlSeconds :: jsval
  hashBody :: bool

text \<open>\<^verbatim>\<open>configDoesntConform\<close>: true when the value is not \<^verbatim>\<open>undefined\<close> and is neither a
  number nor a non-null object with a numeric \<^verbatim>\<open>ttlSeconds\<close> or a boolean \<^verbatim>\<open>hashBody\<close>.\<close>

definition configDoesntConform :: "jsval \<Rightarrow> bool" where
  "configDoesntConform cacheConfig =
     (typeof cacheConfig \<noteq> TUndefined \<and>
      \<not> (typeof cacheConfig = TNumber \<or>
         (typeof cacheConfig = TObject \<and> cacheConfig \<noteq> JNull \<and>
          (typeof (js_get cacheConfig ''ttlSeconds'') = TNumber \<or>
           typeof (js_get cacheConfig ''hashBody'') = TBoolean))))"

text \<open>\<^verbatim>\<open>resolveCacheMetaConfig(meta)\<close>; the \<^verbatim>\<open>throw\<close> is the \<open>Inl\<close> result.\<close>

definition resolveCacheMetaConfig :: "jsval \<Rightarrow> error + ExtendedCacheMeta" where
  "resolveCacheMetaConfig meta =
     (let cache = js_get meta ''cache'' in
      if typeof cache = TUndefined then Inr \<lparr>ttlSeconds = JNum (Fin 0), hashBody = False\<rparr>
      else if configDoesntConform cache then Inl InvalidCacheConfig
      else
        let ttl = (if typeof cache = TNumber then cache
                   else js_or (js_get cache ''ttlSeconds'') (JNum (Fin 0)));
            hb = (js_strict_eq (js_get cache ''hashBody'') (JBool True) \<or> False)
        in Inr \<lparr>ttlSeconds = ttl, hashBody = hb\<rparr>)"

text \<open>The request configuration of the host pipeline, as far as the adapter (and a
  filter predicate) reads it; \<open>httpMethod\<close> is its field \<^verbatim>\<open>method\<close>.\<close>

record RequestConfig =
  meta :: jsval
  httpMethod :: string
  jsonMimeTypes :: "string list"
  textMimeTypes :: "string list"

text \<open>\<^verbatim>\<open>isExplicitCache(config)\<close>. Both resolutions run before the rule is applied, so a
  malformed API-level or request-level setting raises here. The literal \<^verbatim>\<open>{}\<close> that
  replaces a falsy endpoint meta is a new object without properties.\<close>

definition isExplicitCache :: "RequestConfig \<Rightarrow> error + bool" where
  "isExplicitCache config =
     (case resolveCacheMetaConfig (js_get (js_get (meta config) ''api'') ''apiMeta'') of
        Inl e \<Rightarrow> Inl e
      | Inr api \<Rightarrow>
          let apiLevelTTL = ttlSeconds api;
              endpointMeta =
                js_or (js_get (js_get (js_get (meta config) ''api'') ''endpoint'') ''meta'')
                      (JObj 0 []);
              endpointHasCache = has_own endpointMeta ''cache''
          in (case resolveCacheMetaConfig (meta config) of
                Inl e \<Rightarrow> Inl e
              | Inr cur \<Rightarrow>
                  let currentTTL = ttlSeconds cur in
                  if endpointHasCache then Inr True
                  else if typeof apiLevelTTL \<noteq> TUndefined
                          \<and> \<not> js_strict_eq currentTTL apiLevelTTL then Inr True
                  else Inr False))"


section \<open>Number arithmetic\<close>

text \<open>\<^verbatim>\<open>a > b\<close>, \<^verbatim>\<open>a * b\<close> and \<^verbatim>\<open>a + b\<close> on numbers. Every comparison with \<open>NaN\<close> is false.\<close>

fun num_gt :: "jsnum \<Rightarrow> jsnum \<Rightarrow> bool" where
  "num_gt NaN y = False"
| "num_gt x NaN = False"
| "num_gt (Fin a) (Fin b) = (a > b)"
| "num_gt PInf PInf = False"
| "num_gt PInf y = True"
| "num_gt NInf y = False"
| "num_gt (Fin a) PInf = False"
| "num_gt (Fin a) NInf = True"

fun num_mul :: "jsnum \<Rightarrow> jsnum \<Rightarrow> jsnum" where
  "num_mul NaN y = NaN"
| "num_mul x NaN = NaN"
| "num_mul (Fin a) (Fin b) = Fin (a * b)"
| "num_mul (Fin a) PInf = (if a > 0 then PInf else if a < 0 then NInf else NaN)"
| "num_mul (Fin a) NInf = (if a > 0 then NInf else if a < 0 then PInf else NaN)"
| "num_mul PInf (Fin b) = (if b > 0 then PInf else if b < 0 then NInf else NaN)"
| "num_mul NInf (Fin b) = (if b > 0 then NInf else if b < 0 then PInf else NaN)"
| "num_mul PInf PInf = PInf"
| "num_mul PInf NInf = NInf"
| "num_mul NInf PInf = NInf"
| "num_mul NInf NInf = PInf"

fun num_add :: "jsnum \<Rightarrow> jsnum \<Rightarrow> jsnum" where
  "num_add NaN y = NaN"
| "num_add x NaN = NaN"
| "num_add (Fin a) (Fin b) = Fin (a + b)"
| "num_add PInf NInf = NaN"
| "num_add NInf PInf = NaN"
| "num_add PInf y = PInf"
| "num_add NInf y = NInf"
| "num_add (Fin a) PInf = PInf"
| "num_add (Fin a) NInf = NInf"

text \<open>The coercion of an operand of \<^verbatim>\<open>*\<close> to a number. The numeric value of a string
  or of an object is the language runtime's and is taken as the parameter \<open>coerce\<close>.\<close>

fun js_to_number :: "(jsval \<Rightarrow> jsnum) \<Rightarrow> jsval \<Rightarrow> jsnum" where
  "js_to_number coerce JUndefined = NaN"
| "js_to_number coerce JNull = Fin 0"
| "js_to_number coerce (JBool b) = (if b then Fin 1 else Fin 0)"
| "js_to_number coerce (JNum n) = n"
| "js_to_number coerce (JStr s) = coerce (JStr s)"
| "js_to_number coerce (JObj r kvs) = coerce (JObj r kvs)"

section \<open>The entry store\<close>

record CacheEntry =
  hash :: string
  body :: jsval
  createdAt :: jsnum
  expiresAt :: jsnum

text \<open>
  \<^verbatim>\<open>IDBStore\<close>: the field \<^verbatim>\<open>dbPromise\<close> is \<^verbatim>\<open>null\<close> (\<open>None\<close>) or the promise of the
  open request. The environment records whether \<^verbatim>\<open>indexedDB\<close> exists and every call
  \<^verbatim>\<open>indexedDB.open(name, 1)\<close> made so far; a promise is identified by the position of its
  open request in that log.
\<close>

record IDBStore =
  dbName :: string
  storeName :: string
  dbPromise :: "nat option"

record idb_env =
  supported :: bool
  opened :: "string list"

definition IDBStore_new :: "string \<Rightarrow> IDBStore" where
  "IDBStore_new name = \<lparr>dbName = name, storeName = ''entries'', dbPromise = None\<rparr>"

text \<open>\<^verbatim>\<open>open()\<close> has no \<^verbatim>\<open>await\<close>: it runs to its end when it is called, so the test of
  \<^verbatim>\<open>dbPromise\<close> and its assignment are one step.\<close>

definition idb_open :: "IDBStore \<Rightarrow> idb_env \<Rightarrow> (error + nat) \<times> IDBStore \<times> idb_env" where
  "idb_open s env =
     (if \<not> supported env then (Inl IndexedDBNotAvailable, s, env)
      else case dbPromise s of
             Some p \<Rightarrow> (Inr p, s, env)
           | None \<Rightarrow>
               let p = length (opened env) in
               (Inr p, s\<lparr>dbPromise := Some p\<rparr>, env\<lparr>opened := opened env @ [dbName s]\<rparr>))"

text \<open>Every store operation starts, in the call itself, with \<^verbatim>\<open>open()\<close>: \<^verbatim>\<open>get\<close>, \<^verbatim>\<open>set\<close>,
  \<^verbatim>\<open>delete\<close> and \<^verbatim>\<open>clear\<close> through \<^verbatim>\<open>tx(mode)\<close>, whose first statement is
  \<^verbatim>\<open>await this.open()\<close>, and \<^verbatim>\<open>cleanupExpired\<close> directly. The operation then waits for the
  promise it got. \<open>store_call\<close> is that first step; its result is the promise the
  operation awaits, or the error \<^verbatim>\<open>open()\<close> threw.\<close>

datatype store_op = Get string | SetEntry CacheEntry | Delete string | Clear | CleanupExpired rat

definition tx :: "IDBStore \<Rightarrow> idb_env \<Rightarrow> (error + nat) \<times> IDBStore \<times> idb_env" where
  "tx s env = idb_open s env"

definition store_call :: "store_op \<Rightarrow> IDBStore \<Rightarrow> idb_env \<Rightarrow> (error + nat) \<times> IDBStore \<times> idb_env" where
  "store_call op s env =
     (case op of
        Get k \<Rightarrow> tx s env
      | SetEntry entry \<Rightarrow> tx s env
      | Delete k \<Rightarrow> tx s env
      | Clear \<Rightarrow> tx s env
      | CleanupExpired nowMs \<Rightarrow> idb_open s env)"

text \<open>Operations called one after the other on one store, each possibly before the earlier
  ones have finished; the list of the promises they await is returned.\<close>

fun store_calls :: "store_op list \<Rightarrow> IDBStore \<Rightarrow> idb_env \<Rightarrow> (error + nat) list \<times> IDBStore \<times> idb_env" where
  "store_calls [] s env = ([], s, env)"
| "store_calls (op # ops) s env =
     (case store_call op s env of
        (r, s', env') \<Rightarrow>
          (case store_calls ops s' env' of (rs, s'', env'') \<Rightarrow> (r # rs, s'', env'')))"


section \<open>The adapter\<close>

text \<open>A promise returned by one of the two attach-time store calls.\<close>

datatype promise = ClearPromise | CleanupExpiredPromise rat

record SimpleRequestCacheAdapterOptions =
  cacheName :: "string option"
  filter_opt :: "(RequestConfig \<Rightarrow> bool) option"
  clear :: "bool option"

text \<open>The private fields. \<open>factory\<close> is true once \<^verbatim>\<open>onAttach\<close> has stored the factory,
  whose logger the interceptors use.\<close>

record SimpleRequestCacheAdapter =
  store :: IDBStore
  filter_fn :: "(RequestConfig \<Rightarrow> bool) option"
  clearOnAttach :: bool
  factory :: bool
  readyPromise :: "promise option"

text \<open>The constructor. The default value of the parameter replaces an omitted argument
  (\<open>None\<close>) as a whole; the destructuring then gives \<^verbatim>\<open>clear\<close> its default only.\<close>

definition default_options :: SimpleRequestCacheAdapterOptions where
  "default_options = \<lparr>cacheName = Some ''apihive-request-cache'', filter_opt = None, clear = None\<rparr>"

definition constructor :: "SimpleRequestCacheAdapterOptions option \<Rightarrow> error + SimpleRequestCacheAdapter" where
  "constructor arg =
     (let options = (case arg of None \<Rightarrow> default_options | Some opts \<Rightarrow> opts);
          clear_v = (case clear options of None \<Rightarrow> False | Some c \<Rightarrow> c)
      in case cacheName options of
           None \<Rightarrow> Inl EmptyCacheName
         | Some name \<Rightarrow>
             if name = [] then Inl EmptyCacheName
             else Inr \<lparr>store = IDBStore_new name, filter_fn = filter_opt options,
                       clearOnAttach = clear_v, factory = False, readyPromise = None\<rparr>)"

text \<open>What an interceptor does that the outside can see, in order.\<close>

datatype event =
    Call promise
  | Await promise
  | FinaliseURL
  | GetHash bool
  | StoreGet string
  | StoreSet CacheEntry
  | LogError string error

text \<open>\<^verbatim>\<open>onAttach(factory)\<close> at time \<open>now\<close>. The store's methods are \<^verbatim>\<open>async\<close>: a failure is
  a rejected promise, never an exception of the call, so the \<^verbatim>\<open>catch\<close> has nothing to
  catch. The promise of \<^verbatim>\<open>clear()\<close> is dropped; the promise of \<^verbatim>\<open>cleanupExpired\<close> is kept
  in \<^verbatim>\<open>readyPromise\<close>.\<close>

definition onAttach :: "SimpleRequestCacheAdapter \<Rightarrow> rat \<Rightarrow> SimpleRequestCacheAdapter \<times> event list" where
  "onAttach a now =
     (if clearOnAttach a
      then (a\<lparr>factory := True\<rparr>, [Call ClearPromise])
      else (a\<lparr>factory := True, readyPromise := Some (CleanupExpiredPromise now)\<rparr>,
            [Call (CleanupExpiredPromise now)]))"

text \<open>
  What the interceptors get from outside: how each store call and each attach-time
  promise ends (\<open>Inl\<close>, or \<open>Some e\<close>, is a rejection), the clock, the runtime's coercion
  to numbers and its regular-expression test (\<open>Inl\<close> for a pattern that does not
  compile).
\<close>

record host =
  store_get :: "string \<Rightarrow> error + CacheEntry option"
  store_set :: "CacheEntry \<Rightarrow> error option"
  settled :: "promise \<Rightarrow> error option"
  clock :: rat
  coerce_number :: "jsval \<Rightarrow> jsnum"
  regex_test :: "string \<Rightarrow> string \<Rightarrow> error + bool"

record controls =
  getHash :: "bool \<Rightarrow> error + string"

text \<open>\<^verbatim>\<open>await this.readyPromise\<close>: nothing to wait for when the field is unset; otherwise
  the interceptor goes on when the promise is fulfilled and throws its reason when it
  is rejected.\<close>

definition await_ready :: "SimpleRequestCacheAdapter \<Rightarrow> host \<Rightarrow> error option \<times> event list" where
  "await_ready a h =
     (case readyPromise a of
        None \<Rightarrow> (None, [])
      | Some p \<Rightarrow> (settled h p, [Await p]))"

text \<open>\<^verbatim>\<open>!explicit && this.filter && !this.filter(config)\<close>\<close>

definition filter_vetoes :: "SimpleRequestCacheAdapter \<Rightarrow> RequestConfig \<Rightarrow> bool \<Rightarrow> bool" where
  "filter_vetoes a config explicit =
     (\<not> explicit \<and> (case filter_fn a of None \<Rightarrow> False | Some f \<Rightarrow> \<not> f config))"

text \<open>\<^verbatim>\<open>this.factory!.logger.error(msg, e)\<close>: a \<^verbatim>\<open>TypeError\<close> when no factory is attached.\<close>

definition log_error :: "SimpleRequestCacheAdapter \<Rightarrow> string \<Rightarrow> error \<Rightarrow> error option \<times> event list" where
  "log_error a msg e = (if factory a then (None, [LogError msg e]) else (Some TypeError, []))"

text \<open>The request interceptor. The result is the value the \<^verbatim>\<open>async\<close> function resolves
  to (\<open>JUndefined\<close> for a bare \<^verbatim>\<open>return\<close>) or the error it rejects with. The host's
  \<^verbatim>\<open>finaliseURL\<close> and logger and the user's filter are taken to return normally.\<close>

definition requestInterceptor ::
  "SimpleRequestCacheAdapter \<Rightarrow> host \<Rightarrow> RequestConfig \<Rightarrow> controls \<Rightarrow> (error + jsval) \<times> event list" where
  "requestInterceptor a h config ctl =
     (case await_ready a h of
        (Some e, ev0) \<Rightarrow> (Inl e, ev0)
      | (None, ev0) \<Rightarrow>
     (case resolveCacheMetaConfig (meta config) of
        Inl e \<Rightarrow> (Inl e, ev0)
      | Inr m \<Rightarrow>
     if \<not> js_truthy (ttlSeconds m) then (Inr JUndefined, ev0)
     else
     (case isExplicitCache config of
        Inl e \<Rightarrow> (Inl e, ev0)
      | Inr explicit \<Rightarrow>
     if filter_vetoes a config explicit then (Inr JUndefined, ev0)
     else
     (let ev1 = ev0 @ [FinaliseURL, GetHash (hashBody m)] in
      case getHash ctl (hashBody m) of
        Inl e \<Rightarrow> (Inr JUndefined, ev1)
      | Inr hsh \<Rightarrow>
     (let ev2 = ev1 @ [StoreGet hsh] in
      case store_get h hsh of
        Inl e \<Rightarrow>
          (case log_error a ''Failed to read cache entry'' e of
             (Some e', evl) \<Rightarrow> (Inl e', ev2 @ evl)
           | (None, evl) \<Rightarrow> (Inr JUndefined, ev2 @ evl))
      | Inr None \<Rightarrow> (Inr JUndefined, ev2)
      | Inr (Some entry) \<Rightarrow>
          if num_gt (expiresAt entry) (Fin (clock h)) then (Inr (body entry), ev2)
          else (Inr JUndefined, ev2))))))"


section \<open>Responses\<close>

text \<open>
  Response objects live in a heap and are named by their position in it, because
  reading a body changes the object that is read: \<^verbatim>\<open>json()\<close> and \<^verbatim>\<open>text()\<close> mark the
  body as used, and \<^verbatim>\<open>clone()\<close> makes a new object (and throws when the body was already
  used). \<open>json_body\<close> and \<open>text_body\<close> are what decoding the body gives.
\<close>

record Response =
  ok :: bool
  content_type :: "string option"
  json_body :: "error + jsval"
  text_body :: "error + string"
  bodyUsed :: bool

type_synonym heap = "Response list"

definition response_clone :: "heap \<Rightarrow> nat \<Rightarrow> (error + nat) \<times> heap" where
  "response_clone hp r =
     (if bodyUsed (hp ! r) then (Inl TypeError, hp)
      else (Inr (length hp), hp @ [hp ! r]))"

definition response_json :: "heap \<Rightarrow> nat \<Rightarrow> (error + jsval) \<times> heap" where
  "response_json hp r =
     (if bodyUsed (hp ! r) then (Inl TypeError, hp)
      else (json_body (hp ! r), hp[r := (hp ! r)\<lparr>bodyUsed := True\<rparr>]))"

definition response_text :: "heap \<Rightarrow> nat \<Rightarrow> (error + jsval) \<times> heap" where
  "response_text hp r =
     (if bodyUsed (hp ! r) then (Inl TypeError, hp)
      else (case text_body (hp ! r) of Inl e \<Rightarrow> Inl e | Inr t \<Rightarrow> Inr (JStr t),
            hp[r := (hp ! r)\<lparr>bodyUsed := True\<rparr>]))"

text \<open>\<^verbatim>\<open>types.some((type) => new RegExp(type, 'i').test(contentType))\<close>: the patterns are
  tried in order up to the first match; a pattern that does not compile throws.\<close>

fun some_match :: "(string \<Rightarrow> string \<Rightarrow> error + bool) \<Rightarrow> string list \<Rightarrow> string \<Rightarrow> error + bool" where
  "some_match rt [] ct = Inr False"
| "some_match rt (t # ts) ct =
     (case rt t ct of
        Inl e \<Rightarrow> Inl e
      | Inr matched \<Rightarrow> if matched then Inr True else some_match rt ts ct)"

definition isJSONResponse :: "host \<Rightarrow> RequestConfig \<Rightarrow> string \<Rightarrow> error + bool" where
  "isJSONResponse h config contentType = some_match (regex_test h) (jsonMimeTypes config) contentType"

definition isTextResponse :: "host \<Rightarrow> RequestConfig \<Rightarrow> string \<Rightarrow> error + bool" where
  "isTextResponse h config contentType = some_match (regex_test h) (textMimeTypes config) contentType"

text \<open>\<^verbatim>\<open>response.headers.get('content-type')?.split(/;\s?/)[0] || ''\<close>: the header up to
  its first semicolon, the empty string when there is no header.\<close>

definition media_type :: "Response \<Rightarrow> string" where
  "media_type r =
     (case content_type r of
        None \<Rightarrow> []
      | Some v \<Rightarrow> takeWhile (\<lambda>c. c \<noteq> CHR '';'') v)"

text \<open>The two \<^verbatim>\<open>try\<close> blocks of \<^verbatim>\<open>readResponseSafely\<close>: \<open>Some v\<close> is \<^verbatim>\<open>return v\<close>, \<open>None\<close>
  is leaving the block without a value, after the test was false or something threw.\<close>

definition try_json :: "host \<Rightarrow> heap \<Rightarrow> nat \<Rightarrow> RequestConfig \<Rightarrow> string \<Rightarrow> jsval option \<times> heap" where
  "try_json h hp r config ct =
     (case isJSONResponse h config ct of
        Inl e \<Rightarrow> (None, hp)
      | Inr matched \<Rightarrow>
          if \<not> matched then (None, hp)
          else (case response_clone hp r of
                  (Inl e, hp1) \<Rightarrow> (None, hp1)
                | (Inr c, hp1) \<Rightarrow>
                    (case response_json hp1 c of
                       (Inl e, hp2) \<Rightarrow> (None, hp2)
                     | (Inr v, hp2) \<Rightarrow> (Some v, hp2))))"

definition try_text :: "host \<Rightarrow> heap \<Rightarrow> nat \<Rightarrow> RequestConfig \<Rightarrow> string \<Rightarrow> jsval option \<times> heap" where
  "try_text h hp r config ct =
     (case isTextResponse h config ct of
        Inl e \<Rightarrow> (None, hp)
      | Inr matched \<Rightarrow>
          if \<not> matched then (None, hp)
          else (case response_clone hp r of
                  (Inl e, hp1) \<Rightarrow> (None, hp1)
                | (Inr c, hp1) \<Rightarrow>
                    (case response_text hp1 c of
                       (Inl e, hp2) \<Rightarrow> (None, hp2)
                     | (Inr v, hp2) \<Rightarrow> (Some v, hp2))))"

definition readResponseSafely :: "host \<Rightarrow> heap \<Rightarrow> nat \<Rightarrow> RequestConfig \<Rightarrow> jsval \<times> heap" where
  "readResponseSafely h hp r config =
     (let ct = media_type (hp ! r) in
      case try_json h hp r config ct of
        (Some v, hp1) \<Rightarrow> (v, hp1)
      | (None, hp1) \<Rightarrow>
          (case try_text h hp1 r config ct of
             (Some v, hp2) \<Rightarrow> (v, hp2)
           | (None, hp2) \<Rightarrow> (JNull, hp2)))"

text \<open>The response interceptor. \<open>response\<close> is \<open>None\<close> for a missing response; the result
  is the error the function rejects with, if any, what it did, and the heap after it.\<close>

definition responseInterceptor ::
  "SimpleRequestCacheAdapter \<Rightarrow> host \<Rightarrow> heap \<Rightarrow> nat option \<Rightarrow> RequestConfig \<Rightarrow> controls
     \<Rightarrow> error option \<times> event list \<times> heap" where
  "responseInterceptor a h hp response config ctl =
     (case await_ready a h of
        (Some e, ev0) \<Rightarrow> (Some e, ev0, hp)
      | (None, ev0) \<Rightarrow>
     (case resolveCacheMetaConfig (meta config) of
        Inl e \<Rightarrow> (Some e, ev0, hp)
      | Inr m \<Rightarrow>
     if \<not> js_truthy (ttlSeconds m) then (None, ev0, hp)
     else
     (case isExplicitCache config of
        Inl e \<Rightarrow> (Some e, ev0, hp)
      | Inr explicit \<Rightarrow>
     if filter_vetoes a config explicit then (None, ev0, hp)
     else
     (case response of
        None \<Rightarrow> (None, ev0, hp)
      | Some r \<Rightarrow>
     if \<not> ok (hp ! r) then (None, ev0, hp)
     else
     (case readResponseSafely h hp r config of
        (b, hp') \<Rightarrow>
     if b = JNull then (None, ev0, hp')
     else
     (let ev1 = ev0 @ [GetHash (hashBody m)] in
      case getHash ctl (hashBody m) of
        Inl e \<Rightarrow> (None, ev1, hp')
      | Inr hsh \<Rightarrow>
     (let now = Fin (clock h);
          entry = \<lparr>hash = hsh, body = b, createdAt = now,
                   expiresAt = num_add now
                     (num_mul (js_to_number (coerce_number h) (ttlSeconds m)) (Fin 1000))\<rparr>;
          ev2 = ev1 @ [StoreSet entry]
      in case store_set h entry of
           None \<Rightarrow> (None, ev2, hp')
         | Some e \<Rightarrow>
             (case log_error a ''Failed to write cache entry'' e of
                (r', evl) \<Rightarrow> (r', ev2 @ evl, hp')))))))))"

section \<open>The earlier revision of the module\<close>

text \<open>\<^verbatim>\<open>src/index.ts\<close> holds an earlier revision of the same functions, with a TTL that
  is a bare number only. Its \<^verbatim>\<open>resolveTTLSeconds\<close> and \<^verbatim>\<open>isExplicitCache\<close>:\<close>

definition resolveTTLSeconds :: "(jsval \<Rightarrow> jsnum) \<Rightarrow> RequestConfig \<Rightarrow> jsnum" where
  "resolveTTLSeconds coerce config =
     (let ttl = js_to_number coerce (js_or (js_get (meta config) ''cache'') (JNum (Fin 0)))
      in if num_gt ttl (Fin 0) then ttl else Fin 0)"

definition isExplicitCache_v1 :: "RequestConfig \<Rightarrow> bool" where
  "isExplicitCache_v1 config =
     (let apiLevelTTL = js_get (js_get (js_get (meta config) ''api'') ''apiMeta'') ''cache'';
          endpointMeta =
            js_or (js_get (js_get (js_get (meta config) ''api'') ''endpoint'') ''meta'')
                  (JObj 0 []);
          endpointHasCache = has_own endpointMeta ''cache'';
          currentTTL = js_get (meta config) ''cache''
      in if endpointHasCache then True
         else if typeof apiLevelTTL \<noteq> TUndefined \<and> \<not> js_strict_eq currentTTL apiLevelTTL then True
         else False)"


section \<open>The path to the store lookup\<close>


section \<open>Concrete requests, responses and adapters\<close>

text \<open>A regular-expression test for patterns without metacharacters: the pattern matches
  when it occurs in the subject. It stands for \<^verbatim>\<open>new RegExp(p, 'i').test(s)\<close> on the
  lower-case patterns and subjects below.\<close>

fun occurs_in :: "string \<Rightarrow> string \<Rightarrow> bool" where
  "occurs_in p [] = (p = [])"
| "occurs_in p (c # cs) = (p = take (length p) (c # cs) \<or> occurs_in p cs)"

definition literal_regex :: "string \<Rightarrow> string \<Rightarrow> error + bool" where
  "literal_regex p s = Inr (occurs_in p s)"

text \<open>A host at time 1000000 ms in which the store is empty and every call succeeds.\<close>

definition example_host :: host where
  "example_host =
     \<lparr>store_get = (\<lambda>k. Inr None), store_set = (\<lambda>e. None), settled = (\<lambda>p. None),
      clock = 1000000, coerce_number = (\<lambda>v. NaN), regex_test = literal_regex\<rparr>"

definition example_controls :: controls where
  "example_controls = \<lparr>getHash = (\<lambda>includeBody. Inr (if includeBody then ''h+body'' else ''h''))\<rparr>"

definition request_of :: "string \<Rightarrow> jsval \<Rightarrow> RequestConfig" where
  "request_of mth m = \<lparr>meta = m, httpMethod = mth, jsonMimeTypes = [''json''], textMimeTypes = [''text/'']\<rparr>"

text \<open>The filter of the documentation: \<^verbatim>\<open>(config) => config.method === 'GET'\<close>\<close>

definition get_only :: "RequestConfig \<Rightarrow> bool" where
  "get_only config = (httpMethod config = ''GET'')"

definition attached_adapter :: "SimpleRequestCacheAdapterOptions option \<Rightarrow> rat \<Rightarrow> error + SimpleRequestCacheAdapter" where
  "attached_adapter arg now =
     (case constructor arg of Inl e \<Rightarrow> Inl e | Inr a \<Rightarrow> Inr (fst (onAttach a now)))"

definition attach_events :: "SimpleRequestCacheAdapterOptions option \<Rightarrow> rat \<Rightarrow> event list" where
  "attach_events arg now =
     (case constructor arg of Inl e \<Rightarrow> [] | Inr a \<Rightarrow> snd (onAttach a now))"

text \<open>\<^verbatim>\<open>new SimpleRequestCacheAdapter()\<close>, attached at time 0.\<close>

definition sweep_adapter :: SimpleRequestCacheAdapter where
  "sweep_adapter =
     \<lparr>store = \<lparr>dbName = ''apihive-request-cache'', storeName = ''entries'', dbPromise = None\<rparr>,
      filter_fn = None, clearOnAttach = False, factory = True,
      readyPromise = Some (CleanupExpiredPromise 0)\<rparr>"

text \<open>\<^verbatim>\<open>new SimpleRequestCacheAdapter({cacheName: 'cache-clear', clear: true})\<close>, attached.\<close>

definition clear_options :: SimpleRequestCacheAdapterOptions where
  "clear_options = \<lparr>cacheName = Some ''cache-clear'', filter_opt = None, clear = Some True\<rparr>"

definition clear_adapter :: SimpleRequestCacheAdapter where
  "clear_adapter =
     \<lparr>store = \<lparr>dbName = ''cache-clear'', storeName = ''entries'', dbPromise = None\<rparr>,
      filter_fn = None, clearOnAttach = True, factory = True, readyPromise = None\<rparr>"

text \<open>An attached adapter with the filter \<open>get_only\<close>.\<close>

definition get_only_adapter :: SimpleRequestCacheAdapter where
  "get_only_adapter =
     \<lparr>store = \<lparr>dbName = ''cache-filter-explicit'', storeName = ''entries'', dbPromise = None\<rparr>,
      filter_fn = Some get_only, clearOnAttach = False, factory = True,
      readyPromise = Some (CleanupExpiredPromise 0)\<rparr>"

text \<open>\<^verbatim>\<open>{cache: n}\<close>\<close>

definition meta_cache :: "rat \<Rightarrow> jsval" where
  "meta_cache n = JObj 1 [(''cache'', JNum (Fin n))]"

text \<open>\<^verbatim>\<open>{cache: 60, api: {apiMeta: {}, endpoint: {meta: {}}}}\<close>\<close>

definition meta_api_without_cache :: jsval where
  "meta_api_without_cache =
     JObj 1 [(''cache'', JNum (Fin 60)),
             (''api'', JObj 2 [(''apiMeta'', JObj 3 []),
                               (''endpoint'', JObj 4 [(''meta'', JObj 5 [])])])]"

text \<open>\<^verbatim>\<open>{cache: 60, api: {apiMeta: {cache: 60}, endpoint: {meta: {}}}}\<close>\<close>

definition meta_api_inherited :: jsval where
  "meta_api_inherited =
     JObj 1 [(''cache'', JNum (Fin 60)),
             (''api'', JObj 2 [(''apiMeta'', JObj 3 [(''cache'', JNum (Fin 60))]),
                               (''endpoint'', JObj 4 [(''meta'', JObj 5 [])])])]"

text \<open>\<^verbatim>\<open>{cache: 120, api: {apiMeta: {cache: 60}, endpoint: {meta: {cache: 120}}}}\<close>\<close>

definition meta_endpoint_cache :: jsval where
  "meta_endpoint_cache =
     JObj 1 [(''cache'', JNum (Fin 120)),
             (''api'', JObj 2 [(''apiMeta'', JObj 3 [(''cache'', JNum (Fin 60))]),
                               (''endpoint'', JObj 4 [(''meta'', JObj 5 [(''cache'', JNum (Fin 120))])])])]"

text \<open>\<^verbatim>\<open>{cache: 120, api: {apiMeta: {cache: "60"}, endpoint: {meta: {cache: 120}}}}\<close>\<close>

definition meta_api_malformed :: jsval where
  "meta_api_malformed =
     JObj 1 [(''cache'', JNum (Fin 120)),
             (''api'', JObj 2 [(''apiMeta'', JObj 3 [(''cache'', JStr ''60'')]),
                               (''endpoint'', JObj 4 [(''meta'', JObj 5 [(''cache'', JNum (Fin 120))])])])]"

text \<open>Four 200 responses: \<^verbatim>\<open>42\<close> as \<^verbatim>\<open>application/json\<close>, \<^verbatim>\<open>hello\<close> as \<^verbatim>\<open>text/plain\<close>,
  bytes as \<^verbatim>\<open>application/octet-stream\<close>, and a body that is not JSON under the type
  \<^verbatim>\<open>application/json; charset=utf-8\<close>.\<close>

definition ok_json :: Response where
  "ok_json =
     \<lparr>ok = True, content_type = Some ''application/json'',
      json_body = Inr (JNum (Fin 42)), text_body = Inr ''42'', bodyUsed = False\<rparr>"

definition ok_text :: Response where
  "ok_text =
     \<lparr>ok = True, content_type = Some ''text/plain'',
      json_body = Inl (BodyError ''SyntaxError''), text_body = Inr ''hello'', bodyUsed = False\<rparr>"

definition ok_binary :: Response where
  "ok_binary =
     \<lparr>ok = True, content_type = Some ''application/octet-stream'',
      json_body = Inl (BodyError ''SyntaxError''), text_body = Inr ''abc'', bodyUsed = False\<rparr>"

definition ok_not_json :: Response where
  "ok_not_json =
     \<lparr>ok = True, content_type = Some ''application/json; charset=utf-8'',
      json_body = Inl (BodyError ''SyntaxError''), text_body = Inr ''<html>'', bodyUsed = False\<rparr>"

text \<open>A request whose text types cover JSON too, as the earlier revision's
  \<^verbatim>\<open>isTextualContentType\<close> did.\<close>

definition request_json_as_text :: RequestConfig where
  "request_json_as_text =
     \<lparr>meta = meta_cache 60, httpMethod = ''GET'',
      jsonMimeTypes = [''json''], textMimeTypes = [''json'', ''text/'']\<rparr>"

definition live_entry :: CacheEntry where
  "live_entry = \<lparr>hash = ''h'', body = JStr ''cached'', createdAt = Fin 999000, expiresAt = Fin 1059000\<rparr>"

text \<open>The entry written at time 1000000 with a TTL of 60 seconds.\<close>

definition entry_of :: "jsval \<Rightarrow> CacheEntry" where
  "entry_of b = \<lparr>hash = ''h'', body = b, createdAt = Fin 1000000, expiresAt = Fin 1060000\<rparr>"


section \<open>Configuration resolution\<close>

lemmas example_defs = example_host_def example_controls_def request_of_def get_only_def
  attached_adapter_def attach_events_def constructor_def default_options_def IDBStore_new_def
  onAttach_def literal_regex_def sweep_adapter_def clear_options_def clear_adapter_def
  get_only_adapter_def meta_cache_def meta_api_without_cache_def meta_api_inherited_def
  meta_endpoint_cache_def meta_api_malformed_def ok_json_def ok_text_def ok_binary_def
  ok_not_json_def request_json_as_text_def live_entry_def entry_of_def

lemmas interceptor_defs = requestInterceptor_def responseInterceptor_def await_ready_def
  filter_vetoes_def log_error_def isExplicitCache_def resolveCacheMetaConfig_def
  configDoesntConform_def js_or_def Let_def

lemma js_strict_eq_true: "js_strict_eq x (JBool True) = (x = JBool True)"
  by (cases x) auto

lemma typeof_undefined_iff: "(typeof c = TUndefined) = (c = JUndefined)"
  by (cases c) auto

lemma truthy_not_zero: "js_truthy v \<Longrightarrow> \<not> js_strict_eq v (JNum (Fin 0))"
proof (cases v)
  case (JNum n)
  assume "js_truthy v"
  with JNum show ?thesis by (cases n) auto
qed auto

lemma resolve_absent:
  "js_get m ''cache'' = JUndefined \<Longrightarrow>
     resolveCacheMetaConfig m = Inr \<lparr>ttlSeconds = JNum (Fin 0), hashBody = False\<rparr>"
  by (simp add: resolveCacheMetaConfig_def)

lemma resolve_number:
  "js_get m ''cache'' = JNum n \<Longrightarrow>
     resolveCacheMetaConfig m = Inr \<lparr>ttlSeconds = JNum n, hashBody = False\<rparr>"
  by (simp add: resolveCacheMetaConfig_def configDoesntConform_def)

lemma resolve_object:
  assumes "js_get m ''cache'' = JObj r kvs"
    and "typeof (js_get (JObj r kvs) ''ttlSeconds'') = TNumber
         \<or> typeof (js_get (JObj r kvs) ''hashBody'') = TBoolean"
  shows "resolveCacheMetaConfig m =
           Inr \<lparr>ttlSeconds = js_or (js_get (JObj r kvs) ''ttlSeconds'') (JNum (Fin 0)),
                hashBody = (js_get (JObj r kvs) ''hashBody'' = JBool True)\<rparr>"
  using assms
  by (auto simp add: resolveCacheMetaConfig_def configDoesntConform_def Let_def js_strict_eq_true)

lemma resolve_malformed:
  assumes "js_get m ''cache'' \<noteq> JUndefined"
    and "typeof (js_get m ''cache'') \<noteq> TNumber"
    and "\<forall>r kvs. js_get m ''cache'' = JObj r kvs \<longrightarrow>
           typeof (js_get (JObj r kvs) ''ttlSeconds'') \<noteq> TNumber
         \<and> typeof (js_get (JObj r kvs) ''hashBody'') \<noteq> TBoolean"
  shows "resolveCacheMetaConfig m = Inl InvalidCacheConfig"
  using assms
  by (cases "js_get m ''cache''")
     (simp_all add: resolveCacheMetaConfig_def configDoesntConform_def Let_def)

lemma resolve_error_is_config: "resolveCacheMetaConfig m = Inl e \<Longrightarrow> e = InvalidCacheConfig"
  by (auto simp add: resolveCacheMetaConfig_def Let_def split: if_splits)

lemma isExplicitCache_error_is_config: "isExplicitCache config = Inl e \<Longrightarrow> e = InvalidCacheConfig"
  by (auto simp add: isExplicitCache_def Let_def split: sum.splits if_splits
           dest: resolve_error_is_config)

lemma await_ready_events:
  "snd (await_ready a h) = (case readyPromise a of None \<Rightarrow> [] | Some p \<Rightarrow> [Await p])"
  by (simp add: await_ready_def split: option.splits)

text \<open>With a malformed \<^verbatim>\<open>meta.cache\<close> an interceptor stops at the resolution: it has done
  nothing but wait for the attach-time promise, and it rejects.\<close>

lemma requestInterceptor_config_error:
  assumes "resolveCacheMetaConfig (meta config) = Inl e"
  shows "requestInterceptor a h config ctl =
           (case fst (await_ready a h) of Some e' \<Rightarrow> Inl e' | None \<Rightarrow> Inl e, snd (await_ready a h))"
  using assms by (simp add: requestInterceptor_def split: prod.splits option.splits)

lemma responseInterceptor_config_error:
  assumes "resolveCacheMetaConfig (meta config) = Inl e"
  shows "responseInterceptor a h hp response config ctl =
           (case fst (await_ready a h) of Some e' \<Rightarrow> Some e' | None \<Rightarrow> Some e, snd (await_ready a h), hp)"
  using assms by (simp add: responseInterceptor_def split: prod.splits option.splits)


text \<open>
  C5. \<^verbatim>\<open>resolveCacheMetaConfig\<close>, by the shape of \<^verbatim>\<open>meta.cache\<close>:
  \<^item> absent: the result is \<open>{ttlSeconds: 0, hashBody: false}\<close>;
  \<^item> present, not a number, and not an object with a numeric \<^verbatim>\<open>ttlSeconds\<close> or a boolean
    \<^verbatim>\<open>hashBody\<close>: the configuration error is raised, and an interceptor that meets it
    has made no store call (its only event is the wait for the attach-time promise) and
    rejects with that error once the wait is over;
  \<^item> a number \<open>n\<close>: the result is \<open>{ttlSeconds: n, hashBody: false}\<close>;
  \<^item> an object with one of the two fields well-typed: \<^verbatim>\<open>ttlSeconds || 0\<close> and
    \<^verbatim>\<open>hashBody === true\<close>, so a missing \<^verbatim>\<open>ttlSeconds\<close> gives 0 and a missing
    \<^verbatim>\<open>hashBody\<close> gives false.
\<close>

theorem resolveCacheMetaConfig_behaviour:
  "(js_get (meta config) ''cache'' = JUndefined \<longrightarrow>
      resolveCacheMetaConfig (meta config) = Inr \<lparr>ttlSeconds = JNum (Fin 0), hashBody = False\<rparr>)
 \<and> (js_get (meta config) ''cache'' \<noteq> JUndefined
      \<and> typeof (js_get (meta config) ''cache'') \<noteq> TNumber
      \<and> (\<forall>r kvs. js_get (meta config) ''cache'' = JObj r kvs \<longrightarrow>
             typeof (js_get (JObj r kvs) ''ttlSeconds'') \<noteq> TNumber
           \<and> typeof (js_get (JObj r kvs) ''hashBody'') \<noteq> TBoolean) \<longrightarrow>
      resolveCacheMetaConfig (meta config) = Inl InvalidCacheConfig
    \<and> snd (requestInterceptor a h config ctl) = snd (await_ready a h)
    \<and> fst (snd (responseInterceptor a h hp response config ctl)) = snd (await_ready a h)
    \<and> (fst (await_ready a h) = None \<longrightarrow>
          fst (requestInterceptor a h config ctl) = Inl InvalidCacheConfig
        \<and> fst (responseInterceptor a h hp response config ctl) = Some InvalidCacheConfig))
 \<and> (\<forall>n. js_get (meta config) ''cache'' = JNum n \<longrightarrow>
      resolveCacheMetaConfig (meta config) = Inr \<lparr>ttlSeconds = JNum n, hashBody = False\<rparr>)
 \<and> (\<forall>r kvs. js_get (meta config) ''cache'' = JObj r kvs
       \<and> (typeof (js_get (JObj r kvs) ''ttlSeconds'') = TNumber
          \<or> typeof (js_get (JObj r kvs) ''hashBody'') = TBoolean) \<longrightarrow>
      resolveCacheMetaConfig (meta config) =
        Inr \<lparr>ttlSeconds = js_or (js_get (JObj r kvs) ''ttlSeconds'') (JNum (Fin 0)),
             hashBody = (js_get (JObj r kvs) ''hashBody'' = JBool True)\<rparr>
    \<and> (map_of kvs ''ttlSeconds'' = None \<longrightarrow>
          js_or (js_get (JObj r kvs) ''ttlSeconds'') (JNum (Fin 0)) = JNum (Fin 0))
    \<and> (map_of kvs ''hashBody'' = None \<longrightarrow>
          (js_get (JObj r kvs) ''hashBody'' = JBool True) = False))"
proof (intro conjI allI impI)
  assume "js_get (meta config) ''cache'' = JUndefined"
  then show "resolveCacheMetaConfig (meta config) = Inr \<lparr>ttlSeconds = JNum (Fin 0), hashBody = False\<rparr>"
    by (rule resolve_absent)
next
  assume bad: "js_get (meta config) ''cache'' \<noteq> JUndefined
      \<and> typeof (js_get (meta config) ''cache'') \<noteq> TNumber
      \<and> (\<forall>r kvs. js_get (meta config) ''cache'' = JObj r kvs \<longrightarrow>
             typeof (js_get (JObj r kvs) ''ttlSeconds'') \<noteq> TNumber
           \<and> typeof (js_get (JObj r kvs) ''hashBody'') \<noteq> TBoolean)"
  then have err: "resolveCacheMetaConfig (meta config) = Inl InvalidCacheConfig"
    by (intro resolve_malformed) blast+
  show "resolveCacheMetaConfig (meta config) = Inl InvalidCacheConfig" by (rule err)
  show "snd (requestInterceptor a h config ctl) = snd (await_ready a h)"
    by (simp add: requestInterceptor_config_error [OF err])
  show "fst (snd (responseInterceptor a h hp response config ctl)) = snd (await_ready a h)"
    by (simp add: responseInterceptor_config_error [OF err])
  assume go: "fst (await_ready a h) = None"
  show "fst (requestInterceptor a h config ctl) = Inl InvalidCacheConfig"
    by (simp add: requestInterceptor_config_error [OF err] go)
  show "fst (responseInterceptor a h hp response config ctl) = Some InvalidCacheConfig"
    by (simp add: responseInterceptor_config_error [OF err] go)
next
  fix n assume "js_get (meta config) ''cache'' = JNum n"
  then show "resolveCacheMetaConfig (meta config) = Inr \<lparr>ttlSeconds = JNum n, hashBody = False\<rparr>"
    by (rule resolve_number)
next
  fix r kvs
  assume "js_get (meta config) ''cache'' = JObj r kvs
       \<and> (typeof (js_get (JObj r kvs) ''ttlSeconds'') = TNumber
          \<or> typeof (js_get (JObj r kvs) ''hashBody'') = TBoolean)"
  then show "resolveCacheMetaConfig (meta config) =
        Inr \<lparr>ttlSeconds = js_or (js_get (JObj r kvs) ''ttlSeconds'') (JNum (Fin 0)),
             hashBody = (js_get (JObj r kvs) ''hashBody'' = JBool True)\<rparr>"
    by (intro resolve_object) blast+
next
  fix r :: nat and kvs :: "(string \<times> jsval) list"
  assume "map_of kvs ''ttlSeconds'' = None"
  then show "js_or (js_get (JObj r kvs) ''ttlSeconds'') (JNum (Fin 0)) = JNum (Fin 0)"
    by (simp add: js_or_def)
next
  fix r :: nat and kvs :: "(string \<times> jsval) list"
  assume "map_of kvs ''hashBody'' = None"
  then show "(js_get (JObj r kvs) ''hashBody'' = JBool True) = False"
    by simp
qed

text \<open>The five shapes: no \<^verbatim>\<open>cache\<close> key, \<^verbatim>\<open>"abc"\<close>, \<^verbatim>\<open>60\<close>, \<^verbatim>\<open>{hashBody: true}\<close> and
  \<^verbatim>\<open>{ttlSeconds: 60}\<close>.\<close>

theorem resolveCacheMetaConfig_behaviour_witness:
  "resolveCacheMetaConfig (meta (request_of ''GET'' (JObj 1 []))) =
     Inr \<lparr>ttlSeconds = JNum (Fin 0), hashBody = False\<rparr>
   \<and> resolveCacheMetaConfig (meta (request_of ''GET'' (JObj 1 [(''cache'', JStr ''abc'')]))) =
     Inl InvalidCacheConfig
   \<and> requestInterceptor sweep_adapter example_host
        (request_of ''GET'' (JObj 1 [(''cache'', JStr ''abc'')])) example_controls
       = (Inl InvalidCacheConfig, [Await (CleanupExpiredPromise 0)])
   \<and> resolveCacheMetaConfig (meta (request_of ''GET'' (meta_cache 60))) =
     Inr \<lparr>ttlSeconds = JNum (Fin 60), hashBody = False\<rparr>
   \<and> resolveCacheMetaConfig (meta (request_of ''GET''
        (JObj 1 [(''cache'', JObj 2 [(''hashBody'', JBool True)])]))) =
     Inr \<lparr>ttlSeconds = JNum (Fin 0), hashBody = True\<rparr>
   \<and> resolveCacheMetaConfig (meta (request_of ''GET''
        (JObj 1 [(''cache'', JObj 2 [(''ttlSeconds'', JNum (Fin 60))])]))) =
     Inr \<lparr>ttlSeconds = JNum (Fin 60), hashBody = False\<rparr>"
proof -
  have go: "await_ready sweep_adapter example_host = (None, [Await (CleanupExpiredPromise 0)])"
    by (simp add: await_ready_def sweep_adapter_def example_host_def)
  from resolveCacheMetaConfig_behaviour [of "request_of ''GET'' (JObj 1 [])"]
       resolveCacheMetaConfig_behaviour
         [of "request_of ''GET'' (JObj 1 [(''cache'', JStr ''abc'')])"
             sweep_adapter example_host example_controls]
       resolveCacheMetaConfig_behaviour [of "request_of ''GET'' (meta_cache 60)"]
       resolveCacheMetaConfig_behaviour
         [of "request_of ''GET'' (JObj 1 [(''cache'', JObj 2 [(''hashBody'', JBool True)])])"]
       resolveCacheMetaConfig_behaviour
         [of "request_of ''GET'' (JObj 1 [(''cache'', JObj 2 [(''ttlSeconds'', JNum (Fin 60))])])"]
  show ?thesis
    by (simp add: request_of_def meta_cache_def js_or_def go prod_eq_iff)
qed


section \<open>Construction\<close>

text \<open>
  C10. Without an argument the constructor builds the adapter over the store
  \<^verbatim>\<open>'apihive-request-cache'\<close>; with an options object that has no \<^verbatim>\<open>cacheName\<close> it throws,
  whatever else the object holds: the default name belongs to the omitted argument, not
  to the missing field.
\<close>

theorem constructor_default_cacheName:
  "constructor None =
     Inr \<lparr>store = \<lparr>dbName = ''apihive-request-cache'', storeName = ''entries'', dbPromise = None\<rparr>,
          filter_fn = None, clearOnAttach = False, factory = False, readyPromise = None\<rparr>
   \<and> (cacheName opts = None \<longrightarrow> constructor (Some opts) = Inl EmptyCacheName)"
  by (simp add: constructor_def default_options_def IDBStore_new_def)

text \<open>An options object with a filter only.\<close>

theorem constructor_default_cacheName_witness:
  "constructor (Some \<lparr>cacheName = None, filter_opt = Some get_only, clear = None\<rparr>)
     = Inl EmptyCacheName"
  using constructor_default_cacheName
          [of "\<lparr>cacheName = None, filter_opt = Some get_only, clear = None\<rparr>"]
  by simp

section \<open>Opening the database\<close>

lemma idb_open_cached:
  "supported env \<Longrightarrow> dbPromise s = Some p \<Longrightarrow> idb_open s env = (Inr p, s, env)"
  by (simp add: idb_open_def)

lemma store_call_is_open: "store_call op s env = idb_open s env"
  by (cases op) (simp_all add: store_call_def tx_def)

lemma store_calls_cached:
  "supported env \<Longrightarrow> dbPromise s = Some p \<Longrightarrow>
     store_calls ops s env = (replicate (length ops) (Inr p), s, env)"
  by (induction ops) (simp_all add: store_call_is_open idb_open_cached)

lemma store_calls_unsupported:
  "\<not> supported env \<Longrightarrow>
     store_calls ops s env = (replicate (length ops) (Inl IndexedDBNotAvailable), s, env)"
  by (induction ops) (simp_all add: store_call_is_open idb_open_def)

lemma store_calls_fresh:
  assumes "supported env" and "dbPromise s = None" and "ops \<noteq> []"
  shows "store_calls ops s env =
           (replicate (length ops) (Inr (length (opened env))),
            s\<lparr>dbPromise := Some (length (opened env))\<rparr>,
            env\<lparr>opened := opened env @ [dbName s]\<rparr>)"
proof (cases ops)
  case Nil
  with assms show ?thesis by simp
next
  case (Cons op rest)
  let ?s = "s\<lparr>dbPromise := Some (length (opened env))\<rparr>"
  let ?env = "env\<lparr>opened := opened env @ [dbName s]\<rparr>"
  have first: "store_call op s env = (Inr (length (opened env)), ?s, ?env)"
    using assms by (simp add: store_call_is_open idb_open_def Let_def)
  have rest: "store_calls rest ?s ?env = (replicate (length rest) (Inr (length (opened env))), ?s, ?env)"
    using assms by (intro store_calls_cached) simp_all
  show ?thesis
    unfolding Cons by (simp add: first rest)
qed

text \<open>
  C9. A new store has opened nothing. Where \<^verbatim>\<open>indexedDB\<close> exists, any sequence of
  operations called on the store, the later ones possibly before the earlier ones have
  finished, makes one call of \<^verbatim>\<open>indexedDB.open\<close> for the store's database, in the first
  operation, and every operation awaits the promise of that call. Where \<^verbatim>\<open>indexedDB\<close>
  does not exist, every operation fails and nothing is opened.
\<close>

theorem IDBStore_open_single_flight:
  "dbPromise (IDBStore_new name) = None
   \<and> store_calls [] (IDBStore_new name) env = ([], IDBStore_new name, env)
   \<and> (supported env \<and> ops \<noteq> [] \<longrightarrow>
        fst (store_calls ops (IDBStore_new name) env)
          = replicate (length ops) (Inr (length (opened env)))
      \<and> opened (snd (snd (store_calls ops (IDBStore_new name) env))) = opened env @ [name]
      \<and> dbPromise (fst (snd (store_calls ops (IDBStore_new name) env))) = Some (length (opened env)))
   \<and> (\<not> supported env \<longrightarrow>
        fst (store_calls ops (IDBStore_new name) env)
          = replicate (length ops) (Inl IndexedDBNotAvailable)
      \<and> opened (snd (snd (store_calls ops (IDBStore_new name) env))) = opened env)"
proof (intro conjI impI)
  show "dbPromise (IDBStore_new name) = None" by (simp add: IDBStore_new_def)
next
  show "store_calls [] (IDBStore_new name) env = ([], IDBStore_new name, env)" by simp
next
  assume h: "supported env \<and> ops \<noteq> []"
  have fresh: "dbPromise (IDBStore_new name) = None" "dbName (IDBStore_new name) = name"
    by (simp_all add: IDBStore_new_def)
  from h have eq: "store_calls ops (IDBStore_new name) env =
           (replicate (length ops) (Inr (length (opened env))),
            (IDBStore_new name)\<lparr>dbPromise := Some (length (opened env))\<rparr>,
            env\<lparr>opened := opened env @ [name]\<rparr>)"
    using store_calls_fresh [of env "IDBStore_new name" ops] fresh by simp
  show "fst (store_calls ops (IDBStore_new name) env) = replicate (length ops) (Inr (length (opened env)))"
    by (simp add: eq)
  show "opened (snd (snd (store_calls ops (IDBStore_new name) env))) = opened env @ [name]"
    by (simp add: eq)
  show "dbPromise (fst (snd (store_calls ops (IDBStore_new name) env))) = Some (length (opened env))"
    by (simp add: eq)
next
  assume u: "\<not> supported env"
  show "fst (store_calls ops (IDBStore_new name) env) = replicate (length ops) (Inl IndexedDBNotAvailable)"
    by (simp add: store_calls_unsupported [OF u])
  show "opened (snd (snd (store_calls ops (IDBStore_new name) env))) = opened env"
    by (simp add: store_calls_unsupported [OF u])
qed

text \<open>The attach-time sweep, two lookups and a clear on one store; two lookups without
  \<^verbatim>\<open>indexedDB\<close>.\<close>

theorem IDBStore_open_single_flight_witness:
  "fst (store_calls [CleanupExpired 0, Get ''h1'', Get ''h2'', Clear] (IDBStore_new ''cache-json-1'')
          \<lparr>supported = True, opened = []\<rparr>) = [Inr 0, Inr 0, Inr 0, Inr 0]
   \<and> opened (snd (snd (store_calls [CleanupExpired 0, Get ''h1'', Get ''h2'', Clear]
          (IDBStore_new ''cache-json-1'') \<lparr>supported = True, opened = []\<rparr>))) = [''cache-json-1'']
   \<and> fst (store_calls [Get ''h1'', Get ''h2''] (IDBStore_new ''cache-json-1'')
          \<lparr>supported = False, opened = []\<rparr>) = [Inl IndexedDBNotAvailable, Inl IndexedDBNotAvailable]"
  using IDBStore_open_single_flight
          [of "''cache-json-1''" "\<lparr>supported = True, opened = []\<rparr>"
              "[CleanupExpired 0, Get ''h1'', Get ''h2'', Clear]"]
        IDBStore_open_single_flight
          [of "''cache-json-1''" "\<lparr>supported = False, opened = []\<rparr>" "[Get ''h1'', Get ''h2'']"]
  by (simp add: numeral_eq_Suc)


section \<open>The request interceptor\<close>







section \<open>The attach-time promise\<close>

text \<open>Once the wait for the attach-time promise is over, an attached adapter's
  interceptors reject with the configuration error only: a store call or a hash that
  fails ends in \<^verbatim>\<open>undefined\<close>.\<close>

lemma requestInterceptor_only_config_error:
  assumes "factory a" and "fst (await_ready a h) = None"
    and "fst (requestInterceptor a h config ctl) = Inl e"
  shows "e = InvalidCacheConfig"
  using assms
  by (cases "await_ready a h")
     (auto simp add: requestInterceptor_def Let_def log_error_def
           split: sum.splits option.splits if_splits
           dest: resolve_error_is_config isExplicitCache_error_is_config)

lemma responseInterceptor_only_config_error:
  assumes "factory a" and "fst (await_ready a h) = None"
    and "fst (responseInterceptor a h hp response config ctl) = Some e"
  shows "e = InvalidCacheConfig"
  using assms
  by (cases "await_ready a h")
     (auto simp add: responseInterceptor_def Let_def log_error_def
           split: sum.splits option.splits if_splits prod.splits
           dest: resolve_error_is_config isExplicitCache_error_is_config)

text \<open>A rejected attach-time promise is what both interceptors reject with, whatever the
  request.\<close>

lemma rejected_ready_promise_rejects:
  assumes "readyPromise a = Some p" and "settled h p = Some e"
  shows "requestInterceptor a h config ctl = (Inl e, [Await p])
       \<and> responseInterceptor a h hp response config ctl = (Some e, [Await p], hp)"
  using assms by (simp add: requestInterceptor_def responseInterceptor_def await_ready_def)

text \<open>
  C2. The adapter built without options and attached keeps the promise of
  \<^verbatim>\<open>cleanupExpired\<close> in \<^verbatim>\<open>readyPromise\<close>. Where \<^verbatim>\<open>indexedDB\<close> does not exist the sweep
  fails at \<^verbatim>\<open>open()\<close>, so that promise is rejected, and then both interceptors reject
  with the store's error at their first line, for a request that sets no \<^verbatim>\<open>cache\<close> at
  all: the failure of the attach-time sweep reaches the caller of every request.
\<close>

theorem failed_sweep_rejects_interceptors:
  "attached_adapter None 0 = Inr sweep_adapter
   \<and> fst (store_call (CleanupExpired 0) (IDBStore_new ''apihive-request-cache'')
             \<lparr>supported = False, opened = []\<rparr>) = Inl IndexedDBNotAvailable
   \<and> requestInterceptor sweep_adapter
        (example_host\<lparr>settled := (\<lambda>p. Some IndexedDBNotAvailable)\<rparr>)
        (request_of ''GET'' (JObj 1 [])) example_controls
       = (Inl IndexedDBNotAvailable, [Await (CleanupExpiredPromise 0)])
   \<and> responseInterceptor sweep_adapter
        (example_host\<lparr>settled := (\<lambda>p. Some IndexedDBNotAvailable)\<rparr>)
        [ok_json] (Some 0) (request_of ''GET'' (JObj 1 [])) example_controls
       = (Some IndexedDBNotAvailable, [Await (CleanupExpiredPromise 0)], [ok_json])"
  by (simp add: example_defs interceptor_defs store_call_is_open idb_open_def)

text \<open>Without \<^verbatim>\<open>clear\<close>, the sweep is the first thing either interceptor waits for.\<close>

lemma sweep_is_awaited_first:
  assumes "\<not> clearOnAttach a"
  shows "snd (onAttach a now) = [Call (CleanupExpiredPromise now)]
       \<and> (\<exists>evs. snd (requestInterceptor (fst (onAttach a now)) h config ctl)
                  = Await (CleanupExpiredPromise now) # evs)
       \<and> (\<exists>evs. fst (snd (responseInterceptor (fst (onAttach a now)) h hp response config ctl))
                  = Await (CleanupExpiredPromise now) # evs)"
  using assms
  by (auto simp add: onAttach_def requestInterceptor_def responseInterceptor_def await_ready_def
        Let_def split: sum.splits option.splits if_splits prod.splits)

text \<open>With \<^verbatim>\<open>clear\<close>, attaching leaves \<^verbatim>\<open>readyPromise\<close> as it was, so an adapter that is
  attached once waits for nothing in either interceptor.\<close>

lemma clear_is_never_awaited:
  assumes "clearOnAttach a" and "readyPromise a = None"
  shows "snd (onAttach a now) = [Call ClearPromise]
       \<and> Await p \<notin> set (snd (requestInterceptor (fst (onAttach a now)) h config ctl))
       \<and> Await p \<notin> set (fst (snd (responseInterceptor (fst (onAttach a now)) h hp response config ctl)))"
  using assms
  by (auto simp add: onAttach_def requestInterceptor_def responseInterceptor_def await_ready_def
        log_error_def Let_def split: sum.splits option.splits if_splits prod.splits)

text \<open>
  C3. The adapter built with \<^verbatim>\<open>clear: true\<close> calls \<^verbatim>\<open>store.clear()\<close> when it is attached
  and leaves \<^verbatim>\<open>readyPromise\<close> unset. Its request interceptor then goes to \<^verbatim>\<open>store.get\<close>,
  and its response interceptor to \<^verbatim>\<open>store.set\<close>, without an \<open>Await\<close>: nothing waits for
  the clear.
\<close>

theorem clear_on_attach_not_awaited:
  "attached_adapter (Some clear_options) 0 = Inr clear_adapter
   \<and> attach_events (Some clear_options) 0 = [Call ClearPromise]
   \<and> readyPromise clear_adapter = None
   \<and> snd (requestInterceptor clear_adapter example_host
             (request_of ''GET'' (meta_cache 60)) example_controls)
       = [FinaliseURL, GetHash False, StoreGet ''h'']
   \<and> fst (snd (responseInterceptor clear_adapter example_host [ok_json] (Some 0)
             (request_of ''GET'' (meta_cache 60)) example_controls))
       = [GetHash False, StoreSet (entry_of (JNum (Fin 42)))]"
  by (simp add: example_defs interceptor_defs
        readResponseSafely_def try_json_def try_text_def response_clone_def response_json_def
        isJSONResponse_def isTextResponse_def media_type_def)

section \<open>Explicit cache settings\<close>

text \<open>The earlier revision compared the raw settings and asked for an API-level one.\<close>

lemma isExplicitCache_v1_without_endpoint_cache:
  assumes "\<not> has_own (js_or (js_get (js_get (js_get (meta config) ''api'') ''endpoint'') ''meta'') (JObj 0 [])) ''cache''"
  shows "isExplicitCache_v1 config =
           (js_get (js_get (js_get (meta config) ''api'') ''apiMeta'') ''cache'' \<noteq> JUndefined
            \<and> \<not> js_strict_eq (js_get (meta config) ''cache'')
                   (js_get (js_get (js_get (meta config) ''api'') ''apiMeta'') ''cache''))"
  using assms by (simp add: isExplicitCache_v1_def Let_def typeof_undefined_iff)

text \<open>A POST request with \<^verbatim>\<open>cache: 60\<close> of an API whose meta has no \<^verbatim>\<open>cache\<close>, on an
  endpoint whose meta has none either: \<^verbatim>\<open>isExplicitCache\<close> is true, and the adapter whose
  filter accepts GET only looks the request up in the store.\<close>

theorem isExplicitCache_api_without_cache_counterexample:
  "\<not> has_own (js_or (js_get (js_get (js_get meta_api_without_cache ''api'') ''endpoint'') ''meta'') (JObj 0 [])) ''cache''
   \<and> js_get (js_get (js_get meta_api_without_cache ''api'') ''apiMeta'') ''cache'' = JUndefined
   \<and> isExplicitCache (request_of ''POST'' meta_api_without_cache) = Inr True
   \<and> \<not> get_only (request_of ''POST'' meta_api_without_cache)
   \<and> snd (requestInterceptor get_only_adapter example_host
             (request_of ''POST'' meta_api_without_cache) example_controls)
       = [Await (CleanupExpiredPromise 0), FinaliseURL, GetHash False, StoreGet ''h'']"
  by (simp add: example_defs interceptor_defs)

text \<open>
  C1, as the code has it. For a request whose endpoint meta has no \<^verbatim>\<open>cache\<close> key and
  whose API-level and request-level settings are well-formed, \<^verbatim>\<open>isExplicitCache\<close> is true
  exactly when the request's effective TTL is not strictly equal to the API-level TTL,
  and the API-level TTL of an API without a \<^verbatim>\<open>cache\<close> setting is 0. So a request of such
  an API is explicit as soon as its own TTL is truthy, which is the only case in which
  the interceptors ask, and the filter does not veto it.
\<close>

theorem isExplicitCache_request_level:
  assumes "\<not> has_own (js_or (js_get (js_get (js_get (meta config) ''api'') ''endpoint'') ''meta'') (JObj 0 [])) ''cache''"
      and "resolveCacheMetaConfig (js_get (js_get (meta config) ''api'') ''apiMeta'') = Inr api"
      and "resolveCacheMetaConfig (meta config) = Inr cur"
  shows "isExplicitCache config = Inr (\<not> js_strict_eq (ttlSeconds cur) (ttlSeconds api))
       \<and> (js_get (js_get (js_get (meta config) ''api'') ''apiMeta'') ''cache'' = JUndefined \<longrightarrow>
            ttlSeconds api = JNum (Fin 0)
          \<and> (js_truthy (ttlSeconds cur) \<longrightarrow>
                isExplicitCache config = Inr True \<and> \<not> filter_vetoes a config True))"
proof -
  have ty: "typeof (ttlSeconds api) \<noteq> TUndefined"
    using assms(2)
    by (auto simp add: resolveCacheMetaConfig_def configDoesntConform_def Let_def js_or_def
             typeof_undefined_iff split: if_splits)
  have main: "isExplicitCache config = Inr (\<not> js_strict_eq (ttlSeconds cur) (ttlSeconds api))"
    using assms ty by (simp add: isExplicitCache_def Let_def)
  show ?thesis
  proof (intro conjI impI)
    show "isExplicitCache config = Inr (\<not> js_strict_eq (ttlSeconds cur) (ttlSeconds api))"
      by (rule main)
  next
    assume u: "js_get (js_get (js_get (meta config) ''api'') ''apiMeta'') ''cache'' = JUndefined"
    from resolve_absent [OF u] assms(2) show z: "ttlSeconds api = JNum (Fin 0)" by auto
    assume t: "js_truthy (ttlSeconds cur)"
    from main z truthy_not_zero [OF t] show "isExplicitCache config = Inr True" by simp
    show "\<not> filter_vetoes a config True" by (simp add: filter_vetoes_def)
  qed
qed

text \<open>A POST request that inherits the API's \<^verbatim>\<open>cache: 60\<close> is not explicit; a POST request
  with \<^verbatim>\<open>cache: 60\<close> and no API is.\<close>

theorem isExplicitCache_request_level_witness:
  "isExplicitCache (request_of ''POST'' meta_api_inherited) = Inr False
   \<and> isExplicitCache (request_of ''POST'' (meta_cache 60)) = Inr True
   \<and> \<not> filter_vetoes get_only_adapter (request_of ''POST'' (meta_cache 60)) True"
  using isExplicitCache_request_level
          [of "request_of ''POST'' meta_api_inherited"
              "\<lparr>ttlSeconds = JNum (Fin 60), hashBody = False\<rparr>"
              "\<lparr>ttlSeconds = JNum (Fin 60), hashBody = False\<rparr>" get_only_adapter]
        isExplicitCache_request_level
          [of "request_of ''POST'' (meta_cache 60)"
              "\<lparr>ttlSeconds = JNum (Fin 0), hashBody = False\<rparr>"
              "\<lparr>ttlSeconds = JNum (Fin 60), hashBody = False\<rparr>" get_only_adapter]
  by (simp add: request_of_def meta_cache_def meta_api_inherited_def resolveCacheMetaConfig_def
        configDoesntConform_def js_or_def)


text \<open>An endpoint with \<^verbatim>\<open>cache: 120\<close> in an API whose meta has \<^verbatim>\<open>cache: "60"\<close>, a string:
  \<^verbatim>\<open>isExplicitCache\<close> raises the configuration error and returns nothing.\<close>

theorem isExplicitCache_malformed_api_meta_counterexample:
  "has_own (js_or (js_get (js_get (js_get meta_api_malformed ''api'') ''endpoint'') ''meta'') (JObj 0 [])) ''cache''
   \<and> resolveCacheMetaConfig (meta (request_of ''POST'' meta_api_malformed))
       = Inr \<lparr>ttlSeconds = JNum (Fin 120), hashBody = False\<rparr>
   \<and> isExplicitCache (request_of ''POST'' meta_api_malformed) = Inl InvalidCacheConfig"
  by (simp add: example_defs interceptor_defs)

text \<open>
  C8, as the code has it. For a request whose endpoint meta has a \<^verbatim>\<open>cache\<close> key,
  whatever its value, \<^verbatim>\<open>isExplicitCache\<close> never returns false: it returns true when the
  API-level and the request-level settings are well-formed, and then the filter does not
  veto the request; when one of them is malformed it raises the configuration error.
\<close>

theorem isExplicitCache_endpoint_cache:
  assumes "has_own (js_or (js_get (js_get (js_get (meta config) ''api'') ''endpoint'') ''meta'') (JObj 0 [])) ''cache''"
  shows "isExplicitCache config \<noteq> Inr False
       \<and> ((\<exists>api. resolveCacheMetaConfig (js_get (js_get (meta config) ''api'') ''apiMeta'') = Inr api)
          \<and> (\<exists>cur. resolveCacheMetaConfig (meta config) = Inr cur) \<longrightarrow>
            isExplicitCache config = Inr True \<and> \<not> filter_vetoes a config True)
       \<and> ((\<exists>e. resolveCacheMetaConfig (js_get (js_get (meta config) ''api'') ''apiMeta'') = Inl e)
          \<or> (\<exists>e. resolveCacheMetaConfig (meta config) = Inl e) \<longrightarrow>
            isExplicitCache config = Inl InvalidCacheConfig)"
  using assms
  by (auto simp add: isExplicitCache_def Let_def filter_vetoes_def split: sum.splits
           dest: resolve_error_is_config)

text \<open>The endpoint with \<^verbatim>\<open>cache: 120\<close> in the API with \<^verbatim>\<open>cache: 60\<close>, and an endpoint with
  \<^verbatim>\<open>cache: 0\<close> under a request-level \<^verbatim>\<open>cache: 60\<close>.\<close>

theorem isExplicitCache_endpoint_cache_witness:
  "isExplicitCache (request_of ''POST'' meta_endpoint_cache) = Inr True
   \<and> \<not> filter_vetoes get_only_adapter (request_of ''POST'' meta_endpoint_cache) True
   \<and> isExplicitCache (request_of ''POST''
        (JObj 1 [(''cache'', JNum (Fin 60)),
                 (''api'', JObj 2 [(''endpoint'', JObj 4 [(''meta'', JObj 5 [(''cache'', JNum (Fin 0))])])])]))
       = Inr True"
  using isExplicitCache_endpoint_cache [of "request_of ''POST'' meta_endpoint_cache" get_only_adapter]
        isExplicitCache_endpoint_cache
          [of "request_of ''POST''
                 (JObj 1 [(''cache'', JNum (Fin 60)),
                          (''api'', JObj 2 [(''endpoint'', JObj 4 [(''meta'', JObj 5 [(''cache'', JNum (Fin 0))])])])])"
              get_only_adapter]
  by (simp add: request_of_def meta_endpoint_cache_def resolveCacheMetaConfig_def
        configDoesntConform_def js_or_def)

section \<open>The response interceptor\<close>

lemma try_json_eq:
  "try_json h hp r config ct =
     (if isJSONResponse h config ct = Inr True \<and> \<not> bodyUsed (hp ! r)
      then (case json_body (hp ! r) of Inl e \<Rightarrow> None | Inr v \<Rightarrow> Some v,
            hp @ [(hp ! r)\<lparr>bodyUsed := True\<rparr>])
      else (None, hp))"
  by (auto simp add: try_json_def response_clone_def response_json_def
           split: sum.splits prod.splits)

lemma try_text_eq:
  "try_text h hp r config ct =
     (if isTextResponse h config ct = Inr True \<and> \<not> bodyUsed (hp ! r)
      then (case text_body (hp ! r) of Inl e \<Rightarrow> None | Inr t \<Rightarrow> Some (JStr t),
            hp @ [(hp ! r)\<lparr>bodyUsed := True\<rparr>])
      else (None, hp))"
  by (auto simp add: try_text_def response_clone_def response_text_def
           split: sum.splits prod.splits)

text \<open>Reading only adds objects to the heap: the objects that were there are unchanged.\<close>

lemma readResponseSafely_heap:
  "\<exists>ys. snd (readResponseSafely h hp r config) = hp @ ys"
  by (auto simp add: readResponseSafely_def Let_def try_json_eq try_text_eq
           split: sum.splits prod.splits option.splits)

lemma readResponseSafely_value:
  assumes "r < length hp"
  shows "fst (readResponseSafely h hp r config) =
     (let ct = media_type (hp ! r) in
      if isJSONResponse h config ct = Inr True \<and> \<not> bodyUsed (hp ! r)
           \<and> (\<exists>v. json_body (hp ! r) = Inr v)
      then projr (json_body (hp ! r))
      else if isTextResponse h config ct = Inr True \<and> \<not> bodyUsed (hp ! r)
           \<and> (\<exists>t. text_body (hp ! r) = Inr t)
      then JStr (projr (text_body (hp ! r)))
      else JNull)"
  using assms
  by (auto simp add: readResponseSafely_def Let_def try_json_eq try_text_eq nth_append
           split: sum.splits prod.splits option.splits)

text \<open>What is known when the response interceptor has called \<^verbatim>\<open>store.set(entry)\<close>.\<close>

lemma responseInterceptor_StoreSet:
  assumes "StoreSet entry \<in> set (fst (snd (responseInterceptor a h hp response config ctl)))"
  shows "\<exists>r m explicit.
           response = Some r \<and> ok (hp ! r)
         \<and> fst (await_ready a h) = None
         \<and> resolveCacheMetaConfig (meta config) = Inr m \<and> js_truthy (ttlSeconds m)
         \<and> isExplicitCache config = Inr explicit \<and> \<not> filter_vetoes a config explicit
         \<and> fst (readResponseSafely h hp r config) \<noteq> JNull
         \<and> getHash ctl (hashBody m) = Inr (hash entry)
         \<and> entry = \<lparr>hash = hash entry,
                     body = fst (readResponseSafely h hp r config),
                     createdAt = Fin (clock h),
                     expiresAt = num_add (Fin (clock h))
                       (num_mul (js_to_number (coerce_number h) (ttlSeconds m)) (Fin 1000))\<rparr>"
  using assms
  by (cases "await_ready a h")
     (auto simp add: responseInterceptor_def Let_def await_ready_def log_error_def
           split: sum.splits option.splits prod.splits if_splits)

lemma responseInterceptor_heap:
  "\<exists>ys. snd (snd (responseInterceptor a h hp response config ctl)) = hp @ ys"
proof -
  have "\<And>r. \<exists>ys. snd (readResponseSafely h hp r config) = hp @ ys"
    by (rule readResponseSafely_heap)
  then have rd: "\<And>r b hp'. readResponseSafely h hp r config = (b, hp') \<Longrightarrow> \<exists>ys. hp' = hp @ ys"
    by (metis snd_conv)
  show ?thesis
    by (cases "await_ready a h")
       (auto simp add: responseInterceptor_def Let_def
             split: sum.splits option.splits prod.splits if_splits dest: rd)
qed

lemma responseInterceptor_skip:
  assumes "response = Some r" and "fst (readResponseSafely h hp r config) = JNull"
  shows "(fst (responseInterceptor a h hp response config ctl) = None
          \<or> fst (responseInterceptor a h hp response config ctl) = fst (await_ready a h)
          \<or> fst (responseInterceptor a h hp response config ctl) = Some InvalidCacheConfig)
       \<and> fst (snd (responseInterceptor a h hp response config ctl)) = snd (await_ready a h)"
  using assms
  by (cases "await_ready a h"; cases "readResponseSafely h hp r config")
     (auto simp add: responseInterceptor_def isExplicitCache_def Let_def
           split: sum.splits option.splits if_splits dest: resolve_error_is_config)


text \<open>A 200 response of a JSON type whose body is not JSON, for a request whose text types
  cover that type: reading the clone as JSON fails, the second block reads another clone
  as text, and the text is stored.\<close>

theorem json_typed_response_stored_as_text_counterexample:
  "ok ok_not_json
   \<and> isJSONResponse example_host request_json_as_text (media_type ok_not_json) = Inr True
   \<and> json_body ok_not_json = Inl (BodyError ''SyntaxError'')
   \<and> fst (snd (responseInterceptor clear_adapter example_host [ok_not_json] (Some 0)
             request_json_as_text example_controls))
       = [GetHash False, StoreSet (entry_of (JStr ''<html>''))]"
  by (simp add: example_defs interceptor_defs readResponseSafely_def try_json_eq try_text_eq
        isJSONResponse_def isTextResponse_def media_type_def)

text \<open>
  C7, as the code has it. Whenever the response interceptor writes an entry, the
  response is there, is ok and its body was unread, and the stored body is either the
  JSON value of the body, under a JSON content type, or the text of the body, under a
  text content type when the content type is not a JSON type or reading the body as
  JSON failed. Under a content type that is neither, extraction gives \<^verbatim>\<open>null\<close>, no entry
  is written, and the interceptor raises nothing of its own (it can only pass on the
  rejection of the attach-time promise or the configuration error). The interceptor
  reads clones: every response object that was in the heap is the same afterwards.
\<close>

theorem responseInterceptor_stored_body:
  assumes valid: "\<And>r. response = Some r \<Longrightarrow> r < length hp"
  shows
  "(StoreSet entry \<in> set (fst (snd (responseInterceptor a h hp response config ctl))) \<longrightarrow>
      (\<exists>r. response = Some r \<and> ok (hp ! r) \<and> \<not> bodyUsed (hp ! r) \<and>
         ((isJSONResponse h config (media_type (hp ! r)) = Inr True
             \<and> json_body (hp ! r) = Inr (body entry))
        \<or> (isTextResponse h config (media_type (hp ! r)) = Inr True
             \<and> (\<exists>t. text_body (hp ! r) = Inr t \<and> body entry = JStr t)
             \<and> (isJSONResponse h config (media_type (hp ! r)) \<noteq> Inr True
                \<or> (\<exists>e. json_body (hp ! r) = Inl e))))))
   \<and> (\<forall>r. response = Some r
          \<and> isJSONResponse h config (media_type (hp ! r)) \<noteq> Inr True
          \<and> isTextResponse h config (media_type (hp ! r)) \<noteq> Inr True \<longrightarrow>
          fst (readResponseSafely h hp r config) = JNull
        \<and> StoreSet entry \<notin> set (fst (snd (responseInterceptor a h hp response config ctl)))
        \<and> (fst (responseInterceptor a h hp response config ctl) = None
           \<or> fst (responseInterceptor a h hp response config ctl) = fst (await_ready a h)
           \<or> fst (responseInterceptor a h hp response config ctl) = Some InvalidCacheConfig))
   \<and> (\<exists>ys. snd (snd (responseInterceptor a h hp response config ctl)) = hp @ ys)"
proof (intro conjI impI allI)
  assume w: "StoreSet entry \<in> set (fst (snd (responseInterceptor a h hp response config ctl)))"
  from responseInterceptor_StoreSet [OF w]
  obtain r where r: "response = Some r" "ok (hp ! r)"
      "fst (readResponseSafely h hp r config) \<noteq> JNull"
      "body entry = fst (readResponseSafely h hp r config)"
    by (metis CacheEntry.select_convs(2))
  from valid r(1) have len: "r < length hp" by simp
  note v = readResponseSafely_value [OF len, of h config]
  from r(3,4) v
  have "\<not> bodyUsed (hp ! r) \<and>
         ((isJSONResponse h config (media_type (hp ! r)) = Inr True
             \<and> json_body (hp ! r) = Inr (body entry))
        \<or> (isTextResponse h config (media_type (hp ! r)) = Inr True
             \<and> (\<exists>t. text_body (hp ! r) = Inr t \<and> body entry = JStr t)
             \<and> (isJSONResponse h config (media_type (hp ! r)) \<noteq> Inr True
                \<or> (\<exists>e. json_body (hp ! r) = Inl e))))"
    by (cases "json_body (hp ! r)"; cases "text_body (hp ! r)")
       (auto simp add: Let_def split: if_splits)
  with r(1,2)
  show "\<exists>r. response = Some r \<and> ok (hp ! r) \<and> \<not> bodyUsed (hp ! r) \<and>
         ((isJSONResponse h config (media_type (hp ! r)) = Inr True
             \<and> json_body (hp ! r) = Inr (body entry))
        \<or> (isTextResponse h config (media_type (hp ! r)) = Inr True
             \<and> (\<exists>t. text_body (hp ! r) = Inr t \<and> body entry = JStr t)
             \<and> (isJSONResponse h config (media_type (hp ! r)) \<noteq> Inr True
                \<or> (\<exists>e. json_body (hp ! r) = Inl e))))"
    by blast
next
  fix r
  assume o: "response = Some r
          \<and> isJSONResponse h config (media_type (hp ! r)) \<noteq> Inr True
          \<and> isTextResponse h config (media_type (hp ! r)) \<noteq> Inr True"
  with valid have len: "r < length hp" by simp
  from o show n: "fst (readResponseSafely h hp r config) = JNull"
    by (simp add: readResponseSafely_value [OF len] Let_def)
  from o have rs: "response = Some r" by simp
  note sk = responseInterceptor_skip [OF rs n, of a ctl]
  from sk show "StoreSet entry \<notin> set (fst (snd (responseInterceptor a h hp response config ctl)))"
    by (simp add: await_ready_events split: option.splits)
  from sk show "fst (responseInterceptor a h hp response config ctl) = None
           \<or> fst (responseInterceptor a h hp response config ctl) = fst (await_ready a h)
           \<or> fst (responseInterceptor a h hp response config ctl) = Some InvalidCacheConfig"
    by blast
next
  show "\<exists>ys. snd (snd (responseInterceptor a h hp response config ctl)) = hp @ ys"
    by (rule responseInterceptor_heap)
qed

text \<open>The JSON response, the text response and the binary response.\<close>

theorem responseInterceptor_stored_body_witness:
  "StoreSet (entry_of (JNum (Fin 42)))
     \<in> set (fst (snd (responseInterceptor clear_adapter example_host [ok_json] (Some 0)
                        (request_of ''GET'' (meta_cache 60)) example_controls)))
   \<and> json_body ok_json = Inr (JNum (Fin 42))
   \<and> StoreSet (entry_of (JStr ''hello''))
     \<in> set (fst (snd (responseInterceptor clear_adapter example_host [ok_text] (Some 0)
                        (request_of ''GET'' (meta_cache 60)) example_controls)))
   \<and> text_body ok_text = Inr ''hello''
   \<and> StoreSet (entry_of (JStr ''abc''))
     \<notin> set (fst (snd (responseInterceptor clear_adapter example_host [ok_binary] (Some 0)
                        (request_of ''GET'' (meta_cache 60)) example_controls)))
   \<and> fst (responseInterceptor clear_adapter example_host [ok_binary] (Some 0)
            (request_of ''GET'' (meta_cache 60)) example_controls) = None
   \<and> (\<exists>ys. snd (snd (responseInterceptor clear_adapter example_host [ok_json] (Some 0)
                        (request_of ''GET'' (meta_cache 60)) example_controls)) = [ok_json] @ ys)"
proof -
  let ?cfg = "request_of ''GET'' (meta_cache 60)"
  note defs = example_defs interceptor_defs readResponseSafely_def try_json_eq try_text_eq
        isJSONResponse_def isTextResponse_def media_type_def
  have j: "StoreSet (entry_of (JNum (Fin 42)))
     \<in> set (fst (snd (responseInterceptor clear_adapter example_host [ok_json] (Some 0) ?cfg example_controls)))"
    by (simp add: defs)
  have t: "StoreSet (entry_of (JStr ''hello''))
     \<in> set (fst (snd (responseInterceptor clear_adapter example_host [ok_text] (Some 0) ?cfg example_controls)))"
    by (simp add: defs)
  have b: "isJSONResponse example_host ?cfg (media_type ([ok_binary] ! 0)) \<noteq> Inr True
         \<and> isTextResponse example_host ?cfg (media_type ([ok_binary] ! 0)) \<noteq> Inr True"
    by (simp add: defs)
  have e: "fst (await_ready clear_adapter example_host) = None"
    by (simp add: defs)
  have c: "fst (responseInterceptor clear_adapter example_host [ok_binary] (Some 0) ?cfg example_controls)
            \<noteq> Some InvalidCacheConfig"
    by (simp add: defs)
  from responseInterceptor_stored_body
         [of "Some 0" "[ok_json]" "entry_of (JNum (Fin 42))" clear_adapter example_host ?cfg example_controls]
       responseInterceptor_stored_body
         [of "Some 0" "[ok_text]" "entry_of (JStr ''hello'')" clear_adapter example_host ?cfg example_controls]
       responseInterceptor_stored_body
         [of "Some 0" "[ok_binary]" "entry_of (JStr ''abc'')" clear_adapter example_host ?cfg example_controls]
       j t b e c
  show ?thesis
    by (simp add: ok_json_def ok_text_def entry_of_def)
qed

section \<open>The lifetime of an entry\<close>

text \<open>Every entry the response interceptor writes is created at the time of the write
  and expires \<^verbatim>\<open>ttlSeconds * 1000\<close> later, with the \<^verbatim>\<open>ttlSeconds\<close> resolved in that
  invocation; under a positive TTL that is after its creation.\<close>

lemma written_entry_lifetime:
  assumes "StoreSet entry \<in> set (fst (snd (responseInterceptor a h hp response config ctl)))"
  shows "\<exists>m. resolveCacheMetaConfig (meta config) = Inr m
           \<and> createdAt entry = Fin (clock h)
           \<and> expiresAt entry = num_add (createdAt entry)
                (num_mul (js_to_number (coerce_number h) (ttlSeconds m)) (Fin 1000))"
  using responseInterceptor_StoreSet [OF assms]
  by (metis CacheEntry.select_convs(3) CacheEntry.select_convs(4))

lemma positive_ttl_expires_later:
  assumes "0 < q"
  shows "num_gt (num_add (Fin now) (num_mul (js_to_number c (JNum (Fin q))) (Fin 1000))) (Fin now)"
  using assms by simp

lemma negative_ttl_expires_earlier:
  assumes "q < 0"
  shows "num_gt (Fin now) (num_add (Fin now) (num_mul (js_to_number c (JNum (Fin q))) (Fin 1000)))"
  using assms by simp

text \<open>The earlier revision's \<^verbatim>\<open>resolveTTLSeconds\<close> gave 0 for every TTL that is not
  positive, so that nothing was written for it.\<close>

lemma resolveTTLSeconds_clamped:
  "resolveTTLSeconds c config = Fin 0 \<or> num_gt (resolveTTLSeconds c config) (Fin 0)"
  by (simp add: resolveTTLSeconds_def Let_def)

text \<open>
  C4. With \<^verbatim>\<open>meta.cache = -5\<close> the resolved \<^verbatim>\<open>ttlSeconds\<close> is \<open>-5\<close>, which is truthy, and
  the response interceptor writes an entry created at 1000000 that expires at 995000:
  \<^verbatim>\<open>expiresAt > createdAt\<close> is false. The earlier \<^verbatim>\<open>resolveTTLSeconds\<close> gives 0 for the
  same request.
\<close>

theorem negative_ttl_entry_expired_at_creation:
  "resolveCacheMetaConfig (meta_cache (- 5)) = Inr \<lparr>ttlSeconds = JNum (Fin (- 5)), hashBody = False\<rparr>
   \<and> js_truthy (JNum (Fin (- 5)))
   \<and> fst (snd (responseInterceptor clear_adapter example_host [ok_json] (Some 0)
             (request_of ''GET'' (meta_cache (- 5))) example_controls))
       = [GetHash False,
          StoreSet \<lparr>hash = ''h'', body = JNum (Fin 42),
                    createdAt = Fin 1000000, expiresAt = Fin 995000\<rparr>]
   \<and> \<not> num_gt (Fin 995000) (Fin 1000000)
   \<and> resolveTTLSeconds (coerce_number example_host) (request_of ''GET'' (meta_cache (- 5))) = Fin 0"
  by (simp add: example_defs interceptor_defs resolveTTLSeconds_def
        readResponseSafely_def try_json_eq try_text_eq isJSONResponse_def isTextResponse_def
        media_type_def)

end
